theory Spec2Isabelle
  imports Main "HOL-Library.Word"
begin

unbundle bit_operations_syntax

section \<open>Go values, errors and panics\<close>

text \<open>
  A Go \<^verbatim>\<open>[]byte\<close> is a list of 8-bit words; a Go \<^verbatim>\<open>string\<close> is a byte sequence as
  well, so the conversions \<^verbatim>\<open>[]byte(s)\<close> and \<^verbatim>\<open>string(b)\<close> are the identity on the
  bytes and only the constructor that carries them tells the two types apart.
\<close>

type_synonym byte = "8 word"
type_synonym bytes = "byte list"

text \<open>
  The generic parameter \<^verbatim>\<open>T\<close> of both holders, as the type switches over
  \<^verbatim>\<open>any(e.Val)\<close> see it: one constructor per case of the switch, and \<open>VOther\<close> for
  every type that reaches the \<^verbatim>\<open>default\<close> branch. Fixed-width integers are the words
  of their width (a signed integer is its two's complement bit pattern, a float its
  IEEE 754 bit pattern, which is what \<^verbatim>\<open>encoding/binary\<close> writes). The platform-sized
  \<^verbatim>\<open>int\<close> and \<^verbatim>\<open>uint\<close> are modelled on a 64-bit platform, where the conversions
  \<^verbatim>\<open>int64(v)\<close> and \<^verbatim>\<open>int(tmp)\<close> keep all bits.
\<close>

datatype 'a tval =
    VString bytes
  | VBytes bytes
  | VInt8 "8 word"
  | VInt16 "16 word"
  | VInt32 "32 word"
  | VInt64 "64 word"
  | VUint8 "8 word"
  | VUint16 "16 word"
  | VUint32 "32 word"
  | VUint64 "64 word"
  | VFloat32 "32 word"
  | VFloat64 "64 word"
  | VInt "64 word"
  | VUint "64 word"
  | VOther 'a

text \<open>Run-time panics of Go, which unwind the call instead of returning an error.\<close>

datatype panic =
    SliceBoundsOutOfRange
  | NilPointerDereference
  | IncorrectNonceLength

text \<open>
  Every error value the modelled code can return. The first group are the errors of
  \<^verbatim>\<open>EncryptColumn\<close> (part\_000), the second those of \<^verbatim>\<open>SecureField\<close> (part\_001,
  where \<^verbatim>\<open>fmt.Errorf("...: %w", err)\<close> wraps an inner error), the third the errors of
  the standard library and of the serialisation libraries, the last the error of
  \<^verbatim>\<open>errs.NewErrIndexOutOfRange(length, index)\<close>.
\<close>

datatype error =
    ErrInvalid
  | ErrKeyLengthInvalid
  | ErrUnsupportedSrc
  | ErrSecretLength
  | ErrCipherInit error
  | ErrModeInit error
  | ErrInvalidField
  | ErrSerialize error
  | ErrRandom error
  | ErrUnsupportedType
  | ErrDataLength
  | ErrDecrypt error
  | ErrInt8Length
  | ErrInt16Length
  | ErrDeserialize error
  | KeySizeError nat
  | ErrOpen
  | ErrEOF
  | ErrUnexpectedEOF
  | ErrEntropy nat
  | ErrCodec nat
  | ErrIndexOutOfRange nat int
  | Panic panic

fun is_panic :: "error \<Rightarrow> bool" where
  "is_panic (Panic p) = True"
| "is_panic _ = False"

section \<open>Standard library: big-endian integers, the entropy source, AES-GCM\<close>

text \<open>
  \<^verbatim>\<open>binary.BigEndian\<close>: \<open>put_be n w\<close> is the \<open>n\<close> bytes of \<open>w\<close>, most significant
  first (\<^verbatim>\<open>PutUint16(b, v)\<close> stores \<^verbatim>\<open>byte(v >> 8)\<close>, then \<^verbatim>\<open>byte(v)\<close>), and
  \<open>get_be\<close> reads them back (\<^verbatim>\<open>Uint16(b)\<close> is \<^verbatim>\<open>uint16(b[1]) | uint16(b[0])<<8\<close>).
\<close>

fun put_be :: "nat \<Rightarrow> 'w::len word \<Rightarrow> bytes" where
  "put_be 0 w = []"
| "put_be (Suc n) w = ucast (drop_bit (8 * n) w) # put_be n w"

definition get_be :: "bytes \<Rightarrow> 'w::len word" where
  "get_be bs = foldl (\<lambda>acc b. push_bit 8 acc OR ucast b) 0 bs"

text \<open>
  \<^verbatim>\<open>binary.Write(buffer, binary.BigEndian, v)\<close> for a fixed-width \<open>v\<close> of \<open>n\<close> bytes
  into a fresh \<^verbatim>\<open>bytes.Buffer\<close>, followed by \<^verbatim>\<open>buffer.Bytes()\<close>: the buffer never
  refuses a write, so the error is always nil.
\<close>

definition binary_Write :: "nat \<Rightarrow> 'w::len word \<Rightarrow> error + bytes" where
  "binary_Write n w = Inr (put_be n w)"

text \<open>
  \<^verbatim>\<open>binary.Read(bytes.NewReader(data), binary.BigEndian, ptr)\<close> for a pointer to a
  fixed-width value of \<open>n\<close> bytes (\<open>n \<ge> 1\<close>). It reads exactly \<open>n\<close> bytes with
  \<^verbatim>\<open>io.ReadFull\<close>: on an empty reader that is \<^verbatim>\<open>io.EOF\<close>, on fewer than \<open>n\<close> bytes
  \<^verbatim>\<open>io.ErrUnexpectedEOF\<close>, and bytes after the first \<open>n\<close> stay unread in the reader.
\<close>

definition binary_Read :: "nat \<Rightarrow> bytes \<Rightarrow> error + 'w::len word" where
  "binary_Read n data =
     (if n \<le> length data then Inr (get_be (take n data))
      else if data = [] then Inl ErrEOF
      else Inl ErrUnexpectedEOF)"

text \<open>
  The entropy source (\<^verbatim>\<open>crypto/rand\<close>) as one call sees it: either it fails, or it
  delivers the stream of random bytes from which the call fills its buffer.
\<close>

datatype entropy = Entropy "nat \<Rightarrow> byte" | EntropyFails error

fun rand_Read :: "entropy \<Rightarrow> nat \<Rightarrow> error + bytes" where
  "rand_Read (Entropy f) n = Inr (map f [0..<n])"
| "rand_Read (EntropyFails err) n = Inl err"

text \<open>
  What the repository's code takes from outside and the model takes as a parameter: the
  two cryptographic primitives inside AES-GCM (the AES-CTR keystream byte at a position,
  for a key and a nonce, and the 128-bit authentication tag of a ciphertext, for a key,
  a nonce and the additional data), \<^verbatim>\<open>encoding/json\<close> on the values of a type that
  reaches a \<^verbatim>\<open>default\<close> branch, and \<^verbatim>\<open>msgpack\<close> on any value. \<^verbatim>\<open>Unmarshal\<close> writes
  through a pointer, so it takes the target's old content and returns its new content
  next to the error.
\<close>

record 'a extern =
  ctr_keystream :: "bytes \<Rightarrow> bytes \<Rightarrow> nat \<Rightarrow> byte"
  gcm_tag :: "bytes \<Rightarrow> bytes \<Rightarrow> bytes \<Rightarrow> bytes \<Rightarrow> 128 word"
  json_Marshal :: "'a \<Rightarrow> error + bytes"
  json_Unmarshal :: "bytes \<Rightarrow> 'a \<Rightarrow> 'a \<times> error option"
  msgpack_Marshal :: "'a tval \<Rightarrow> error + bytes"
  msgpack_Unmarshal :: "bytes \<Rightarrow> 'a tval \<Rightarrow> 'a tval \<times> error option"

text \<open>
  \<^verbatim>\<open>aes.NewCipher(key)\<close> accepts keys of 16, 24 or 32 bytes and returns
  \<^verbatim>\<open>aes.KeySizeError(len(key))\<close> for any other; \<^verbatim>\<open>cipher.NewGCM(block)\<close> fails only
  for a block size other than 16, which AES never has. The resulting
  \<^verbatim>\<open>cipher.AEAD\<close> has a nonce of 12 bytes and a tag of 16 bytes.
\<close>

datatype Block = AES bytes

datatype AEAD = GCM Block

definition aes_NewCipher :: "bytes \<Rightarrow> error + Block" where
  "aes_NewCipher key =
     (if length key = 16 \<or> length key = 24 \<or> length key = 32 then Inr (AES key)
      else Inl (KeySizeError (length key)))"

definition cipher_NewGCM :: "Block \<Rightarrow> error + AEAD" where
  "cipher_NewGCM block = Inr (GCM block)"

definition NonceSize :: "AEAD \<Rightarrow> nat" where
  "NonceSize gcm = 12"

definition tagSize :: nat where
  "tagSize = 16"

text \<open>Counter mode: the data, byte by byte, XOR the keystream.\<close>

definition counterCrypt :: "'a extern \<Rightarrow> bytes \<Rightarrow> bytes \<Rightarrow> bytes \<Rightarrow> bytes" where
  "counterCrypt L key nonce data =
     map (\<lambda>(i, b). b XOR ctr_keystream L key nonce i) (zip [0..<length data] data)"

text \<open>
  \<^verbatim>\<open>Seal(dst, nonce, plaintext, additionalData)\<close> appends the ciphertext and the tag
  to \<open>dst\<close>; \<^verbatim>\<open>Open(dst, nonce, ciphertext, additionalData)\<close> fails with the one error
  \<^verbatim>\<open>cipher: message authentication failed\<close> when the input is shorter than a tag or
  the tag is not the expected one, and otherwise appends the plaintext to \<open>dst\<close>. Both
  panic on a nonce whose length is not \<open>NonceSize\<close>. (GCM's limit on the message size,
  \<open>2^36 - 32\<close> bytes, is outside the model.)
\<close>

fun Seal :: "'a extern \<Rightarrow> AEAD \<Rightarrow> bytes \<Rightarrow> bytes \<Rightarrow> bytes \<Rightarrow> bytes \<Rightarrow> error + bytes" where
  "Seal L (GCM (AES key)) dst nonce plaintext additionalData =
     (if length nonce \<noteq> NonceSize (GCM (AES key)) then Inl (Panic IncorrectNonceLength)
      else
        let ciphertext = counterCrypt L key nonce plaintext;
            tag = put_be tagSize (gcm_tag L key nonce additionalData ciphertext)
        in Inr (dst @ ciphertext @ tag))"

fun Open :: "'a extern \<Rightarrow> AEAD \<Rightarrow> bytes \<Rightarrow> bytes \<Rightarrow> bytes \<Rightarrow> bytes \<Rightarrow> error + bytes" where
  "Open L (GCM (AES key)) dst nonce ciphertext additionalData =
     (if length nonce \<noteq> NonceSize (GCM (AES key)) then Inl (Panic IncorrectNonceLength)
      else if length ciphertext < tagSize then Inl ErrOpen
      else
        let tag = drop (length ciphertext - tagSize) ciphertext;
            ciphertext = take (length ciphertext - tagSize) ciphertext;
            expectedTag = put_be tagSize (gcm_tag L key nonce additionalData ciphertext)
        in if expectedTag \<noteq> tag then Inl ErrOpen
           else Inr (dst @ counterCrypt L key nonce ciphertext))"

section \<open>EncryptColumn (part\_000)\<close>

record 'a EncryptColumn =
  Val :: "'a tval"
  Valid :: bool
  Key :: bytes

text \<open>
  What the database driver hands to \<^verbatim>\<open>Scan(src any)\<close>: a byte slice, a string, or a
  value of any other dynamic type (of a \<^verbatim>\<open>driver.Value\<close>: nil, an integer, a float, a
  boolean, a time).
\<close>

datatype dyn = DNil | DInt64 "64 word" | DFloat64 "64 word" | DBool bool | DTime int

datatype src = SrcBytes bytes | SrcString bytes | SrcOther dyn

text \<open>The type switch of \<^verbatim>\<open>Value\<close> that serialises \<^verbatim>\<open>e.Val\<close> (lines 52 to 75).\<close>

fun EncryptColumn_encode :: "'a extern \<Rightarrow> 'a tval \<Rightarrow> error + bytes" where
  "EncryptColumn_encode L (VString valT) = Inr valT"
| "EncryptColumn_encode L (VBytes valT) = Inr valT"
| "EncryptColumn_encode L (VInt8 v) = binary_Write 1 v"
| "EncryptColumn_encode L (VInt16 v) = binary_Write 2 v"
| "EncryptColumn_encode L (VInt32 v) = binary_Write 4 v"
| "EncryptColumn_encode L (VInt64 v) = binary_Write 8 v"
| "EncryptColumn_encode L (VUint8 v) = binary_Write 1 v"
| "EncryptColumn_encode L (VUint16 v) = binary_Write 2 v"
| "EncryptColumn_encode L (VUint32 v) = binary_Write 4 v"
| "EncryptColumn_encode L (VUint64 v) = binary_Write 8 v"
| "EncryptColumn_encode L (VFloat32 v) = binary_Write 4 v"
| "EncryptColumn_encode L (VFloat64 v) = binary_Write 8 v"
| "EncryptColumn_encode L (VInt valT) = binary_Write 8 valT"
| "EncryptColumn_encode L (VUint valT) = binary_Write 8 valT"
| "EncryptColumn_encode L (VOther v) = json_Marshal L v"

definition aesEncrypt :: "'a extern \<Rightarrow> 'a EncryptColumn \<Rightarrow> entropy \<Rightarrow> bytes \<Rightarrow> error + bytes" where
  "aesEncrypt L e rnd data =
     (case aes_NewCipher (Key e) of
        Inl err \<Rightarrow> Inl err
      | Inr block \<Rightarrow>
          (case cipher_NewGCM block of
             Inl err \<Rightarrow> Inl err
           | Inr gcm \<Rightarrow>
               (case rand_Read rnd (NonceSize gcm) of
                  Inl err \<Rightarrow> Inl err
                | Inr nonce \<Rightarrow> Seal L gcm nonce nonce data [])))"

text \<open>
  \<^verbatim>\<open>aesDecrypt\<close> slices \<^verbatim>\<open>data[:nonceSize], data[nonceSize:]\<close> with no check of the
  length: for \<open>len(data) < nonceSize\<close> the second expression is out of range (and
  the first as well unless the capacity allows it), which is a run-time panic.
\<close>

definition aesDecrypt :: "'a extern \<Rightarrow> 'a EncryptColumn \<Rightarrow> bytes \<Rightarrow> error + bytes" where
  "aesDecrypt L e data =
     (case aes_NewCipher (Key e) of
        Inl err \<Rightarrow> Inl err
      | Inr block \<Rightarrow>
          (case cipher_NewGCM block of
             Inl err \<Rightarrow> Inl err
           | Inr gcm \<Rightarrow>
               let nonceSize = NonceSize gcm in
               if length data < nonceSize then Inl (Panic SliceBoundsOutOfRange)
               else Open L gcm [] (take nonceSize data) (drop nonceSize data) []))"

definition EncryptColumn_Value :: "'a extern \<Rightarrow> 'a EncryptColumn \<Rightarrow> entropy \<Rightarrow> error + bytes" where
  "EncryptColumn_Value L e rnd =
     (if \<not> Valid e then Inl ErrInvalid
      else if length (Key e) \<noteq> 16 \<and> length (Key e) \<noteq> 24 \<and> length (Key e) \<noteq> 32
        then Inl ErrKeyLengthInvalid
      else
        (case EncryptColumn_encode L (Val e) of
           Inl err \<Rightarrow> Inl err
         | Inr b \<Rightarrow> aesEncrypt L e rnd b))"

text \<open>
  \<^verbatim>\<open>setValAfterDecrypt\<close> writes \<^verbatim>\<open>e.Val\<close> through a pointer and returns the error; the
  model returns the holder after the call with it. A failed \<^verbatim>\<open>binary.Read\<close> leaves its
  target as it was; in the cases of \<^verbatim>\<open>int\<close> and \<^verbatim>\<open>uint\<close> the target is the fresh
  \<^verbatim>\<open>tmp\<close>, which is then copied into \<^verbatim>\<open>e.Val\<close> whatever the error.
\<close>

definition setValAfterDecrypt ::
  "'a extern \<Rightarrow> 'a EncryptColumn \<Rightarrow> bytes \<Rightarrow> 'a EncryptColumn \<times> error option" where
  "setValAfterDecrypt L e deEncrypt =
     (case Val e of
        VString _ \<Rightarrow> (e\<lparr>Val := VString deEncrypt\<rparr>, None)
      | VBytes _ \<Rightarrow> (e\<lparr>Val := VBytes deEncrypt\<rparr>, None)
      | VInt8 _ \<Rightarrow> (case binary_Read 1 deEncrypt of
            Inl err \<Rightarrow> (e, Some err) | Inr v \<Rightarrow> (e\<lparr>Val := VInt8 v\<rparr>, None))
      | VInt16 _ \<Rightarrow> (case binary_Read 2 deEncrypt of
            Inl err \<Rightarrow> (e, Some err) | Inr v \<Rightarrow> (e\<lparr>Val := VInt16 v\<rparr>, None))
      | VInt32 _ \<Rightarrow> (case binary_Read 4 deEncrypt of
            Inl err \<Rightarrow> (e, Some err) | Inr v \<Rightarrow> (e\<lparr>Val := VInt32 v\<rparr>, None))
      | VInt64 _ \<Rightarrow> (case binary_Read 8 deEncrypt of
            Inl err \<Rightarrow> (e, Some err) | Inr v \<Rightarrow> (e\<lparr>Val := VInt64 v\<rparr>, None))
      | VUint8 _ \<Rightarrow> (case binary_Read 1 deEncrypt of
            Inl err \<Rightarrow> (e, Some err) | Inr v \<Rightarrow> (e\<lparr>Val := VUint8 v\<rparr>, None))
      | VUint16 _ \<Rightarrow> (case binary_Read 2 deEncrypt of
            Inl err \<Rightarrow> (e, Some err) | Inr v \<Rightarrow> (e\<lparr>Val := VUint16 v\<rparr>, None))
      | VUint32 _ \<Rightarrow> (case binary_Read 4 deEncrypt of
            Inl err \<Rightarrow> (e, Some err) | Inr v \<Rightarrow> (e\<lparr>Val := VUint32 v\<rparr>, None))
      | VUint64 _ \<Rightarrow> (case binary_Read 8 deEncrypt of
            Inl err \<Rightarrow> (e, Some err) | Inr v \<Rightarrow> (e\<lparr>Val := VUint64 v\<rparr>, None))
      | VFloat32 _ \<Rightarrow> (case binary_Read 4 deEncrypt of
            Inl err \<Rightarrow> (e, Some err) | Inr v \<Rightarrow> (e\<lparr>Val := VFloat32 v\<rparr>, None))
      | VFloat64 _ \<Rightarrow> (case binary_Read 8 deEncrypt of
            Inl err \<Rightarrow> (e, Some err) | Inr v \<Rightarrow> (e\<lparr>Val := VFloat64 v\<rparr>, None))
      | VInt _ \<Rightarrow> (case binary_Read 8 deEncrypt of
            Inl err \<Rightarrow> (e\<lparr>Val := VInt 0\<rparr>, Some err) | Inr tmp \<Rightarrow> (e\<lparr>Val := VInt tmp\<rparr>, None))
      | VUint _ \<Rightarrow> (case binary_Read 8 deEncrypt of
            Inl err \<Rightarrow> (e\<lparr>Val := VUint 0\<rparr>, Some err) | Inr tmp \<Rightarrow> (e\<lparr>Val := VUint tmp\<rparr>, None))
      | VOther v \<Rightarrow> (case json_Unmarshal L deEncrypt v of
            (v', err) \<Rightarrow> (e\<lparr>Val := VOther v'\<rparr>, err)))"

text \<open>
  \<^verbatim>\<open>Scan\<close> has a pointer receiver: the model returns the holder after the call and the
  error (\<open>None\<close> is nil). \<open>Scan_result\<close> is what follows the type switch (lines 100
  to 106), applied to the \<^verbatim>\<open>b, err\<close> that the switch assigned. A panic of
  \<^verbatim>\<open>aesDecrypt\<close> unwinds \<^verbatim>\<open>Scan\<close> before it has written anything, as the early return
  of an error does.
\<close>

definition Scan_result ::
  "'a extern \<Rightarrow> 'a EncryptColumn \<Rightarrow> error + bytes \<Rightarrow> 'a EncryptColumn \<times> error option" where
  "Scan_result L e r =
     (case r of
        Inl err \<Rightarrow> (e, Some err)
      | Inr b \<Rightarrow>
          (case setValAfterDecrypt L e b of
             (e', err) \<Rightarrow> (e'\<lparr>Valid := (err = None)\<rparr>, err)))"

definition EncryptColumn_Scan ::
  "'a extern \<Rightarrow> 'a EncryptColumn \<Rightarrow> src \<Rightarrow> 'a EncryptColumn \<times> error option" where
  "EncryptColumn_Scan L e src =
     (case src of
        SrcBytes value \<Rightarrow> Scan_result L e (aesDecrypt L e value)
      | SrcString value \<Rightarrow> Scan_result L e (aesDecrypt L e value)
      | SrcOther _ \<Rightarrow> (e, Some ErrUnsupportedSrc))"

section \<open>SecureField (part\_001)\<close>

text \<open>
  The field \<^verbatim>\<open>value\<close> is \<open>fieldValue\<close> here; \<^verbatim>\<open>aead\<close> is \<open>None\<close> while the
  interface value is nil; \<open>initOnce\<close> tells whether the \<^verbatim>\<open>sync.Once\<close> has run.
\<close>

record 'a SecureField =
  fieldValue :: "'a tval"
  isValid :: bool
  secret :: bytes
  aead :: "AEAD option"
  initOnce :: bool
  initError :: "error option"

definition setupCrypto :: "'a SecureField \<Rightarrow> 'a SecureField" where
  "setupCrypto sf =
     (if initOnce sf then sf
      else
        let sf = sf\<lparr>initOnce := True\<rparr> in
        if length (secret sf) \<noteq> 16 \<and> length (secret sf) \<noteq> 24 \<and> length (secret sf) \<noteq> 32
          then sf\<lparr>initError := Some ErrSecretLength\<rparr>
        else
          (case aes_NewCipher (secret sf) of
             Inl err \<Rightarrow> sf\<lparr>initError := Some (ErrCipherInit err)\<rparr>
           | Inr block \<Rightarrow>
               (case cipher_NewGCM block of
                  Inl err \<Rightarrow> sf\<lparr>aead := None, initError := Some (ErrModeInit err)\<rparr>
                | Inr gcm \<Rightarrow> sf\<lparr>aead := Some gcm\<rparr>)))"

definition NewSecureField :: "bytes \<Rightarrow> 'a tval \<Rightarrow> 'a SecureField" where
  "NewSecureField secret' initialValue =
     setupCrypto \<lparr>fieldValue = initialValue, isValid = True, secret = secret',
                  aead = None, initOnce = False, initError = None\<rparr>"

text \<open>
  The type switch of \<^verbatim>\<open>Value\<close> that serialises \<^verbatim>\<open>sf.value\<close> (lines 74 to 87).
  \<^verbatim>\<open>convertStringToBytes\<close> and \<^verbatim>\<open>convertBytesToString\<close> reinterpret the header of
  their argument without copying: the bytes they yield are the bytes of the argument.
\<close>

fun SecureField_encode :: "'a extern \<Rightarrow> 'a tval \<Rightarrow> error + bytes" where
  "SecureField_encode L (VString v) = Inr v"
| "SecureField_encode L (VBytes v) = Inr v"
| "SecureField_encode L (VInt8 v) = Inr [v]"
| "SecureField_encode L (VInt16 v) = Inr (put_be 2 v)"
| "SecureField_encode L v = msgpack_Marshal L v"

text \<open>
  \<^verbatim>\<open>Value\<close>. Calling \<^verbatim>\<open>NonceSize\<close> on the nil interface of a holder that no
  constructor has set up is a nil dereference.
\<close>

definition SecureField_Value :: "'a extern \<Rightarrow> 'a SecureField \<Rightarrow> entropy \<Rightarrow> error + bytes" where
  "SecureField_Value L sf rnd =
     (case initError sf of
        Some err \<Rightarrow> Inl err
      | None \<Rightarrow>
          if \<not> isValid sf then Inl ErrInvalidField
          else
            (case SecureField_encode L (fieldValue sf) of
               Inl err \<Rightarrow> Inl (ErrSerialize err)
             | Inr data \<Rightarrow>
                 (case aead sf of
                    None \<Rightarrow> Inl (Panic NilPointerDereference)
                  | Some gcm \<Rightarrow>
                      (case rand_Read rnd (NonceSize gcm) of
                         Inl err \<Rightarrow> Inl (ErrRandom err)
                       | Inr nonce \<Rightarrow> Seal L gcm nonce nonce data []))))"

text \<open>
  The type switch of \<^verbatim>\<open>Scan\<close> that deserialises the plaintext into \<^verbatim>\<open>sf.value\<close>
  (lines 134 to 155), up to the final \<^verbatim>\<open>sf.isValid = true\<close> and with the early
  returns of the cases \<^verbatim>\<open>*int8\<close> and \<^verbatim>\<open>*int16\<close>.
\<close>

definition SecureField_decode ::
  "'a extern \<Rightarrow> 'a SecureField \<Rightarrow> bytes \<Rightarrow> 'a SecureField \<times> error option" where
  "SecureField_decode L sf plainData =
     (case fieldValue sf of
        VString _ \<Rightarrow> (sf\<lparr>fieldValue := VString plainData, isValid := True\<rparr>, None)
      | VBytes _ \<Rightarrow> (sf\<lparr>fieldValue := VBytes plainData, isValid := True\<rparr>, None)
      | VInt8 _ \<Rightarrow>
          if length plainData \<noteq> 1 then (sf, Some ErrInt8Length)
          else (sf\<lparr>fieldValue := VInt8 (plainData ! 0), isValid := True\<rparr>, None)
      | VInt16 _ \<Rightarrow>
          if length plainData \<noteq> 2 then (sf, Some ErrInt16Length)
          else (sf\<lparr>fieldValue := VInt16 (get_be plainData), isValid := True\<rparr>, None)
      | _ \<Rightarrow>
          (case msgpack_Unmarshal L plainData (fieldValue sf) of
             (v', Some err) \<Rightarrow> (sf\<lparr>fieldValue := v', isValid := False\<rparr>, Some (ErrDeserialize err))
           | (v', None) \<Rightarrow> (sf\<lparr>fieldValue := v', isValid := True\<rparr>, None)))"

definition SecureField_Scan ::
  "'a extern \<Rightarrow> 'a SecureField \<Rightarrow> src \<Rightarrow> 'a SecureField \<times> error option" where
  "SecureField_Scan L sf src =
     (case initError sf of
        Some err \<Rightarrow> (sf, Some err)
      | None \<Rightarrow>
          (case (case src of SrcBytes v \<Rightarrow> Some v | SrcString v \<Rightarrow> Some v | SrcOther _ \<Rightarrow> None) of
             None \<Rightarrow> (sf, Some ErrUnsupportedType)
           | Some encrypted \<Rightarrow>
               (case aead sf of
                  None \<Rightarrow> (sf, Some (Panic NilPointerDereference))
                | Some gcm \<Rightarrow>
                    let nonceSize = NonceSize gcm in
                    if length encrypted < nonceSize then (sf, Some ErrDataLength)
                    else
                      (case Open L gcm [] (take nonceSize encrypted) (drop nonceSize encrypted) [] of
                         Inl err \<Rightarrow>
                           if is_panic err then (sf, Some err)
                           else (sf\<lparr>isValid := False\<rparr>, Some (ErrDecrypt err))
                       | Inr plainData \<Rightarrow> SecureField_decode L sf plainData))))"

text \<open>
  The holders a program can hold: one made by \<^verbatim>\<open>NewSecureField\<close> or the zero value of
  the struct (all fields are unexported), after any sequence of \<^verbatim>\<open>Scan\<close> calls;
  \<^verbatim>\<open>Value\<close> changes nothing.
\<close>

definition zeroSecureField :: "'a tval \<Rightarrow> 'a SecureField" where
  "zeroSecureField zeroValue =
     \<lparr>fieldValue = zeroValue, isValid = False, secret = [],
      aead = None, initOnce = False, initError = None\<rparr>"

fun scans :: "'a extern \<Rightarrow> 'a SecureField \<Rightarrow> src list \<Rightarrow> 'a SecureField" where
  "scans L sf [] = sf"
| "scans L sf (src # srcs) = scans L (fst (SecureField_Scan L sf src)) srcs"

section \<open>Vocabulary of the statements\<close>

text \<open>
  The static type \<^verbatim>\<open>T\<close> of a holder, read off the value it holds: the case of the
  type switches that the value takes.
\<close>

datatype gotype =
    TString | TBytes | TInt8 | TInt16 | TInt32 | TInt64 | TUint8 | TUint16 | TUint32 | TUint64
  | TFloat32 | TFloat64 | TInt | TUint | TOther

fun typeOf :: "'a tval \<Rightarrow> gotype" where
  "typeOf (VString _) = TString"
| "typeOf (VBytes _) = TBytes"
| "typeOf (VInt8 _) = TInt8"
| "typeOf (VInt16 _) = TInt16"
| "typeOf (VInt32 _) = TInt32"
| "typeOf (VInt64 _) = TInt64"
| "typeOf (VUint8 _) = TUint8"
| "typeOf (VUint16 _) = TUint16"
| "typeOf (VUint32 _) = TUint32"
| "typeOf (VUint64 _) = TUint64"
| "typeOf (VFloat32 _) = TFloat32"
| "typeOf (VFloat64 _) = TFloat64"
| "typeOf (VInt _) = TInt"
| "typeOf (VUint _) = TUint"
| "typeOf (VOther _) = TOther"


text \<open>
  One instance of the parameters, on which the model runs on concrete inputs: a
  keystream and a tag that depend on the key, the nonce and the data, JSON for the
  booleans, and msgpack for \<^verbatim>\<open>int32\<close> (the marker \<open>0xD2\<close>, then four bytes). The
  theorems below hold for every instance.
\<close>

definition exampleLib :: "bool extern" where
  "exampleLib =
     \<lparr>ctr_keystream = (\<lambda>key nonce i. sum_list key + sum_list nonce + of_nat i),
      gcm_tag = (\<lambda>key nonce additionalData ciphertext.
         ucast (sum_list key + sum_list nonce + sum_list additionalData + sum_list ciphertext)),
      json_Marshal = (\<lambda>v. Inr (if v then [116, 114, 117, 101] else [102, 97, 108, 115, 101])),
      json_Unmarshal = (\<lambda>data v.
         if data = [116, 114, 117, 101] then (True, None)
         else if data = [102, 97, 108, 115, 101] then (False, None)
         else (v, Some (ErrCodec 0))),
      msgpack_Marshal = (\<lambda>v.
         case v of VInt32 w \<Rightarrow> Inr (0xD2 # put_be 4 w) | _ \<Rightarrow> Inl (ErrCodec 1)),
      msgpack_Unmarshal = (\<lambda>data v.
         case v of
           VInt32 _ \<Rightarrow>
             if length data = 5 \<and> hd data = 0xD2 then (VInt32 (get_be (tl data)), None)
             else (v, Some (ErrCodec 2))
         | _ \<Rightarrow> (v, Some (ErrCodec 2)))\<rparr>"

section \<open>Package slice: Add\<close>

text \<open>
  The loop of \<^verbatim>\<open>Add\<close>:
  \<^verbatim>\<open>for i := len(src) - 1; i > index; i-- { src[i] = src[i-1] }\<close>,
  with the loop variable as an argument.
\<close>

function shiftRight :: "'a list \<Rightarrow> nat \<Rightarrow> nat \<Rightarrow> 'a list" where
  "shiftRight src i index =
     (if i > index then shiftRight (src[i := src ! (i - 1)]) (i - 1) index else src)"
  by pat_completeness auto
termination
  by (relation "measure (\<lambda>(src, i, index). i)") auto

declare shiftRight.simps [simp del]

text \<open>
  \<^verbatim>\<open>func Add[T any](src []T, element T, index int) ([]T, error)\<close>. The zero value of
  \<^verbatim>\<open>T\<close> that is appended first is the parameter \<open>zeroValue\<close>; \<open>Inl\<close> is the
  return of a nil slice with an error.
\<close>

definition Add :: "'a \<Rightarrow> 'a list \<Rightarrow> 'a \<Rightarrow> int \<Rightarrow> error + 'a list" where
  "Add zeroValue src element index =
     (let len = length src in
      if index < 0 \<or> index > int len then Inl (ErrIndexOutOfRange len index)
      else
        let src1 = src @ [zeroValue];
            src2 = shiftRight src1 (length src1 - 1) (nat index)
        in Inr (src2[nat index := element]))"

section \<open>Properties of the standard-library model\<close>

lemma length_put_be [simp]: "length (put_be n w) = n"
  by (induction n) auto

lemma be_step:
  "push_bit (8 * n) (push_bit 8 acc OR ucast (ucast (drop_bit (8 * n) w) :: byte)) OR take_bit (8 * n) w
      = push_bit (8 * Suc n) acc OR take_bit (8 * Suc n) (w :: 'w::len word)"
proof (rule bit_eqI)
  fix k
  assume "possible_bit TYPE('w word) k"
  then show "bit (push_bit (8 * n) (push_bit 8 acc OR ucast (ucast (drop_bit (8 * n) w) :: byte)) OR take_bit (8 * n) w) k
      = bit (push_bit (8 * Suc n) acc OR take_bit (8 * Suc n) w) k"
    by (auto simp add: bit_simps add.commute dest: bit_imp_le_length)
qed

lemma foldl_put_be:
  "foldl (\<lambda>acc b. push_bit 8 acc OR ucast b) acc (put_be n w)
     = push_bit (8 * n) acc OR take_bit (8 * n) (w :: 'w::len word)"
proof (induction n arbitrary: acc)
  case 0
  show ?case by simp
next
  case (Suc n)
  show ?case
    using be_step [of n acc w] by (simp add: Suc)
qed

lemma get_put_be: "LENGTH('w::len) \<le> 8 * n \<Longrightarrow> get_be (put_be n (w :: 'w word)) = w"
  by (simp add: get_be_def foldl_put_be take_bit_word_eq_self)

lemma binary_Read_Write:
  "LENGTH('w::len) \<le> 8 * n \<Longrightarrow> binary_Read n (put_be n (w :: 'w word)) = Inr w"
  by (auto simp: binary_Write_def binary_Read_def get_put_be)

lemma binary_Read_Write_1: "binary_Read (Suc 0) [w] = Inr (w :: 8 word)"
  using binary_Read_Write [of 1 w] by simp

lemma xor_cancel_right: "(a XOR b) XOR b = (a :: byte)"
  by (simp add: xor.assoc)


lemma length_counterCrypt [simp]: "length (counterCrypt L key nonce data) = length data"
  by (simp add: counterCrypt_def)

lemma counterCrypt_involution: "counterCrypt L key nonce (counterCrypt L key nonce data) = data"
  by (rule nth_equalityI) (simp_all add: counterCrypt_def xor_cancel_right)

lemma Seal_layout:
  "length nonce = 12 \<Longrightarrow>
   Seal L (GCM (AES key)) dst nonce plaintext ad =
     Inr (dst @ counterCrypt L key nonce plaintext
              @ put_be 16 (gcm_tag L key nonce ad (counterCrypt L key nonce plaintext)))"
  by (simp add: NonceSize_def tagSize_def Let_def)

lemma Open_sealed:
  "length nonce = 12 \<Longrightarrow>
   Open L (GCM (AES key)) dst nonce
     (counterCrypt L key nonce plaintext
        @ put_be 16 (gcm_tag L key nonce ad (counterCrypt L key nonce plaintext))) ad
   = Inr (dst @ plaintext)"
  by (simp add: NonceSize_def tagSize_def Let_def counterCrypt_involution)

section \<open>Round trips\<close>

lemma EncryptColumn_decode_encode:
  assumes "typeOf v \<noteq> TOther" and "typeOf (Val e) = typeOf v"
  shows "\<exists>b. EncryptColumn_encode L v = Inr b \<and> setValAfterDecrypt L e b = (e\<lparr>Val := v\<rparr>, None)"
  using assms
  by (cases v; cases "Val e")
     (simp_all add: setValAfterDecrypt_def binary_Write_def binary_Read_Write binary_Read_Write_1)

lemma SecureField_decode_encode:
  assumes "typeOf v \<in> {TString, TBytes, TInt8, TInt16}" and "typeOf (fieldValue sf) = typeOf v"
  shows "\<exists>b. SecureField_encode L v = Inr b
            \<and> SecureField_decode L sf b = (sf\<lparr>fieldValue := v, isValid := True\<rparr>, None)"
  using assms
  by (cases v; cases "fieldValue sf")
     (simp_all add: SecureField_decode_def get_put_be)

lemma aesEncrypt_envelope:
  assumes "length (Key e) = 16 \<or> length (Key e) = 24 \<or> length (Key e) = 32"
  shows "aesEncrypt L e (Entropy f) data =
           Inr (map f [0..<12] @ counterCrypt L (Key e) (map f [0..<12]) data
                  @ put_be 16 (gcm_tag L (Key e) (map f [0..<12]) []
                                 (counterCrypt L (Key e) (map f [0..<12]) data)))"
  using assms
  by (auto simp: aesEncrypt_def aes_NewCipher_def cipher_NewGCM_def NonceSize_def tagSize_def Let_def)

lemma aesDecrypt_envelope:
  assumes "length (Key e) = 16 \<or> length (Key e) = 24 \<or> length (Key e) = 32"
    and "length nonce = 12"
  shows "aesDecrypt L e (nonce @ counterCrypt L (Key e) nonce data
                  @ put_be 16 (gcm_tag L (Key e) nonce [] (counterCrypt L (Key e) nonce data)))
         = Inr data"
  using assms Open_sealed [of nonce L "Key e" "[]" data "[]"]
  by (auto simp: aesDecrypt_def aes_NewCipher_def cipher_NewGCM_def NonceSize_def)

lemma SecureField_seal_open:
  assumes "initError sf = None" and "isValid sf" and "aead sf = Some gcm"
    and "SecureField_encode L (fieldValue sf) = Inr x"
    and "initError sf' = None" and "aead sf' = Some gcm"
  shows "\<exists>env. SecureField_Value L sf (Entropy f) = Inr env
            \<and> SecureField_Scan L sf' (SrcBytes env) = SecureField_decode L sf' x"
proof -
  obtain key where gcm: "gcm = GCM (AES key)"
    by (metis AEAD.exhaust Block.exhaust)
  let ?nonce = "map f [0..<12]"
  let ?ct = "counterCrypt L key ?nonce x"
  let ?env = "?nonce @ ?ct @ put_be 16 (gcm_tag L key ?nonce [] ?ct)"
  have "SecureField_Value L sf (Entropy f) = Inr ?env"
    using assms(1-4) by (simp add: SecureField_Value_def gcm NonceSize_def tagSize_def Let_def)
  moreover have "SecureField_Scan L sf' (SrcBytes ?env) = SecureField_decode L sf' x"
    using assms(5,6) Open_sealed [of ?nonce L key "[]" x "[]"]
    by (simp add: SecureField_Scan_def gcm NonceSize_def)
  ultimately show ?thesis by blast
qed

lemma NewSecureField_good:
  "length s = 16 \<or> length s = 24 \<or> length s = 32 \<Longrightarrow>
   NewSecureField s v =
     \<lparr>fieldValue = v, isValid = True, secret = s, aead = Some (GCM (AES s)),
      initOnce = True, initError = None\<rparr>"
  by (auto simp: NewSecureField_def setupCrypto_def aes_NewCipher_def cipher_NewGCM_def)

lemma NewSecureField_bad:
  "length s \<noteq> 16 \<and> length s \<noteq> 24 \<and> length s \<noteq> 32 \<Longrightarrow>
   NewSecureField s v =
     \<lparr>fieldValue = v, isValid = True, secret = s, aead = None,
      initOnce = True, initError = Some ErrSecretLength\<rparr>"
  by (auto simp: NewSecureField_def setupCrypto_def)

text \<open>
  C2. For every primitive type and every value \<open>v\<close> of it, decoding the bytes that
  encoding \<open>v\<close> produces yields \<open>v\<close> again, in \<^verbatim>\<open>EncryptColumn\<close> for every case of
  its switch but the default and in \<^verbatim>\<open>SecureField\<close> for the cases its switch has; and
  for every byte sequence \<open>x\<close>, opening the sealed envelope of \<open>x\<close> with the same
  key returns \<open>x\<close>: \<^verbatim>\<open>aesDecrypt\<close> after \<^verbatim>\<open>aesEncrypt\<close>, and in \<^verbatim>\<open>SecureField\<close> the
  plaintext that \<^verbatim>\<open>Scan\<close> decodes is the one that \<^verbatim>\<open>Value\<close> sealed.
\<close>

theorem codec_and_envelope_roundtrip:
  "(typeOf v \<noteq> TOther \<and> typeOf (Val e) = typeOf v \<longrightarrow>
      (\<exists>b. EncryptColumn_encode L v = Inr b
           \<and> setValAfterDecrypt L e b = (e\<lparr>Val := v\<rparr>, None)))
   \<and> (typeOf v \<in> {TString, TBytes, TInt8, TInt16} \<and> typeOf (fieldValue sf) = typeOf v \<longrightarrow>
      (\<exists>b. SecureField_encode L v = Inr b
           \<and> SecureField_decode L sf b = (sf\<lparr>fieldValue := v, isValid := True\<rparr>, None)))
   \<and> (typeOf v \<notin> {TString, TBytes, TInt8, TInt16} \<and> typeOf (fieldValue sf) = typeOf v
        \<and> msgpack_Marshal L v = Inr b \<and> msgpack_Unmarshal L b (fieldValue sf) = (v, None) \<longrightarrow>
      SecureField_encode L v = Inr b
        \<and> SecureField_decode L sf b = (sf\<lparr>fieldValue := v, isValid := True\<rparr>, None))
   \<and> ((length (Key e) = 16 \<or> length (Key e) = 24 \<or> length (Key e) = 32)
        \<and> Key e' = Key e \<longrightarrow>
      (\<exists>env. aesEncrypt L e (Entropy f) x = Inr env \<and> aesDecrypt L e' env = Inr x))
   \<and> (initError sf = None \<and> isValid sf \<and> aead sf = Some gcm
        \<and> SecureField_encode L (fieldValue sf) = Inr x
        \<and> initError sf' = None \<and> aead sf' = Some gcm \<longrightarrow>
      (\<exists>env. SecureField_Value L sf (Entropy f) = Inr env
           \<and> SecureField_Scan L sf' (SrcBytes env) = SecureField_decode L sf' x))"
proof (intro conjI impI)
  assume "typeOf v \<noteq> TOther \<and> typeOf (Val e) = typeOf v"
  then show "\<exists>b. EncryptColumn_encode L v = Inr b
           \<and> setValAfterDecrypt L e b = (e\<lparr>Val := v\<rparr>, None)"
    by (simp add: EncryptColumn_decode_encode)
next
  assume "typeOf v \<in> {TString, TBytes, TInt8, TInt16} \<and> typeOf (fieldValue sf) = typeOf v"
  then show "\<exists>b. SecureField_encode L v = Inr b
           \<and> SecureField_decode L sf b = (sf\<lparr>fieldValue := v, isValid := True\<rparr>, None)"
    using SecureField_decode_encode [of v sf L] by blast
next
  assume h: "typeOf v \<notin> {TString, TBytes, TInt8, TInt16} \<and> typeOf (fieldValue sf) = typeOf v
        \<and> msgpack_Marshal L v = Inr b \<and> msgpack_Unmarshal L b (fieldValue sf) = (v, None)"
  then show "SecureField_encode L v = Inr b"
    by (cases v) simp_all
  from h show "SecureField_decode L sf b = (sf\<lparr>fieldValue := v, isValid := True\<rparr>, None)"
    by (cases v; cases "fieldValue sf") (simp_all add: SecureField_decode_def)
next
  assume h: "(length (Key e) = 16 \<or> length (Key e) = 24 \<or> length (Key e) = 32)
        \<and> Key e' = Key e"
  let ?nonce = "map f [0..<12]"
  have "aesEncrypt L e (Entropy f) x =
          Inr (?nonce @ counterCrypt L (Key e) ?nonce x
                 @ put_be 16 (gcm_tag L (Key e) ?nonce [] (counterCrypt L (Key e) ?nonce x)))"
    using h by (intro aesEncrypt_envelope) simp
  moreover have "aesDecrypt L e' (?nonce @ counterCrypt L (Key e') ?nonce x
                 @ put_be 16 (gcm_tag L (Key e') ?nonce [] (counterCrypt L (Key e') ?nonce x)))
                = Inr x"
    using h by (intro aesDecrypt_envelope) simp_all
  ultimately show "\<exists>env. aesEncrypt L e (Entropy f) x = Inr env \<and> aesDecrypt L e' env = Inr x"
    using h by simp
next
  assume "initError sf = None \<and> isValid sf \<and> aead sf = Some gcm
        \<and> SecureField_encode L (fieldValue sf) = Inr x
        \<and> initError sf' = None \<and> aead sf' = Some gcm"
  then show "\<exists>env. SecureField_Value L sf (Entropy f) = Inr env
           \<and> SecureField_Scan L sf' (SrcBytes env) = SecureField_decode L sf' x"
    using SecureField_seal_open [of sf gcm L x sf' f] by blast
qed

theorem codec_and_envelope_roundtrip_witness:
  "(\<exists>b. EncryptColumn_encode exampleLib (VInt64 42) = Inr b
       \<and> setValAfterDecrypt exampleLib \<lparr>Val = VInt64 0, Valid = False, Key = replicate 32 0\<rparr> b
           = (\<lparr>Val = VInt64 42, Valid = False, Key = replicate 32 0\<rparr>, None))
   \<and> (\<exists>b. SecureField_encode exampleLib (VInt16 7) = Inr b
       \<and> SecureField_decode exampleLib (NewSecureField (replicate 16 0) (VInt16 0)) b
           = (NewSecureField (replicate 16 0) (VInt16 7), None))
   \<and> SecureField_encode exampleLib (VInt32 7) = Inr [0xD2, 0, 0, 0, 7]
   \<and> SecureField_decode exampleLib (NewSecureField (replicate 16 0) (VInt32 0)) [0xD2, 0, 0, 0, 7]
         = (NewSecureField (replicate 16 0) (VInt32 7), None)
   \<and> (\<exists>env. aesEncrypt exampleLib \<lparr>Val = VBytes [1, 2, 3], Valid = True, Key = replicate 32 0\<rparr>
                (Entropy (\<lambda>i. 5)) [1, 2, 3] = Inr env
       \<and> aesDecrypt exampleLib \<lparr>Val = VBytes [], Valid = False, Key = replicate 32 0\<rparr> env
           = Inr [1, 2, 3])
   \<and> (\<exists>env. SecureField_Value exampleLib (NewSecureField (replicate 16 0) (VString [104, 105]))
                (Entropy (\<lambda>i. 5)) = Inr env
       \<and> SecureField_Scan exampleLib (NewSecureField (replicate 16 0) (VString [])) (SrcBytes env)
           = SecureField_decode exampleLib (NewSecureField (replicate 16 0) (VString [])) [104, 105])"
proof (intro conjI)
  have marshal: "msgpack_Marshal exampleLib (VInt32 7) = Inr [0xD2, 0, 0, 0, 7]"
    by code_simp
  have unmarshal: "msgpack_Unmarshal exampleLib [0xD2, 0, 0, 0, 7] (VInt32 0) = (VInt32 7, None)"
    by code_simp
  have fallback:
    "SecureField_encode exampleLib (VInt32 7) = Inr [0xD2, 0, 0, 0, 7]
     \<and> SecureField_decode exampleLib (NewSecureField (replicate 16 0) (VInt32 0)) [0xD2, 0, 0, 0, 7]
         = (NewSecureField (replicate 16 0) (VInt32 7), None)"
    using codec_and_envelope_roundtrip
      [where v = "VInt32 7" and L = exampleLib and b = "[0xD2, 0, 0, 0, 7]"
         and sf = "NewSecureField (replicate 16 0) (VInt32 0)"]
      marshal unmarshal
    by (simp add: NewSecureField_good)
  from fallback show "SecureField_encode exampleLib (VInt32 7) = Inr [0xD2, 0, 0, 0, 7]"
    by simp
  from fallback
  show "SecureField_decode exampleLib (NewSecureField (replicate 16 0) (VInt32 0)) [0xD2, 0, 0, 0, 7]
         = (NewSecureField (replicate 16 0) (VInt32 7), None)"
    by simp
  show "\<exists>b. EncryptColumn_encode exampleLib (VInt64 42) = Inr b
       \<and> setValAfterDecrypt exampleLib \<lparr>Val = VInt64 0, Valid = False, Key = replicate 32 0\<rparr> b
           = (\<lparr>Val = VInt64 42, Valid = False, Key = replicate 32 0\<rparr>, None)"
    using codec_and_envelope_roundtrip
      [where v = "VInt64 42" and L = exampleLib
         and e = "\<lparr>Val = VInt64 0, Valid = False, Key = replicate 32 0\<rparr>"]
    by simp
  show "\<exists>b. SecureField_encode exampleLib (VInt16 7) = Inr b
       \<and> SecureField_decode exampleLib (NewSecureField (replicate 16 0) (VInt16 0)) b
           = (NewSecureField (replicate 16 0) (VInt16 7), None)"
    using codec_and_envelope_roundtrip
      [where v = "VInt16 7" and L = exampleLib
         and sf = "NewSecureField (replicate 16 0) (VInt16 0)"]
    by (simp add: NewSecureField_good)
  show "\<exists>env. aesEncrypt exampleLib \<lparr>Val = VBytes [1, 2, 3], Valid = True, Key = replicate 32 0\<rparr>
                (Entropy (\<lambda>i. 5)) [1, 2, 3] = Inr env
       \<and> aesDecrypt exampleLib \<lparr>Val = VBytes [], Valid = False, Key = replicate 32 0\<rparr> env
           = Inr [1, 2, 3]"
    using codec_and_envelope_roundtrip
      [where L = exampleLib and x = "[1, 2, 3]" and f = "\<lambda>i. 5"
         and e = "\<lparr>Val = VBytes [1, 2, 3], Valid = True, Key = replicate 32 0\<rparr>"
         and e' = "\<lparr>Val = VBytes [], Valid = False, Key = replicate 32 0\<rparr>"]
    by simp
  show "\<exists>env. SecureField_Value exampleLib (NewSecureField (replicate 16 0) (VString [104, 105]))
                (Entropy (\<lambda>i. 5)) = Inr env
       \<and> SecureField_Scan exampleLib (NewSecureField (replicate 16 0) (VString [])) (SrcBytes env)
           = SecureField_decode exampleLib (NewSecureField (replicate 16 0) (VString [])) [104, 105]"
    using codec_and_envelope_roundtrip
      [where L = exampleLib and x = "[104, 105]" and f = "\<lambda>i. 5"
         and gcm = "GCM (AES (replicate 16 0))"
         and sf = "NewSecureField (replicate 16 0) (VString [104, 105])"
         and sf' = "NewSecureField (replicate 16 0) (VString [])"]
    by (simp add: NewSecureField_good)
qed

section \<open>Key length\<close>

lemma SecureField_Scan_initError:
  "initError sf = Some err \<Longrightarrow> SecureField_Scan L sf src = (sf, Some err)"
  by (simp add: SecureField_Scan_def)

lemma scans_initError:
  "initError sf = Some err \<Longrightarrow> scans L sf srcs = sf"
  by (induction srcs) (simp_all add: SecureField_Scan_initError)

lemma setupCrypto_once: "initOnce sf \<Longrightarrow> setupCrypto sf = sf"
  by (simp add: setupCrypto_def)

text \<open>
  C3, as the code has it. A \<^verbatim>\<open>SecureField\<close> made by \<^verbatim>\<open>NewSecureField\<close> from a secret
  whose length is not 16, 24 or 32 holds the key-length error that the one-time setup
  cached: after any sequence of \<^verbatim>\<open>Scan\<close> calls the holder is unchanged, every
  \<^verbatim>\<open>Value\<close> and every \<^verbatim>\<open>Scan\<close> (whatever the source) returns that error, and
  \<^verbatim>\<open>setupCrypto\<close> does nothing more. An \<^verbatim>\<open>EncryptColumn\<close> with such a key caches
  nothing and checks on each call: \<^verbatim>\<open>Value\<close> returns \<^verbatim>\<open>errKeyLengthInvalid\<close> when the
  holder is valid and \<^verbatim>\<open>errInvalid\<close> when it is not; \<^verbatim>\<open>Scan\<close> of a byte slice or a
  string returns the \<^verbatim>\<open>aes.KeySizeError\<close> of \<^verbatim>\<open>aes.NewCipher\<close>, and \<^verbatim>\<open>Scan\<close> of any
  other source the unsupported-source error; the holder is unchanged.
\<close>

theorem key_length_validation:
  "(length s \<noteq> 16 \<and> length s \<noteq> 24 \<and> length s \<noteq> 32 \<longrightarrow>
      initError (NewSecureField s v) = Some ErrSecretLength
      \<and> scans L (NewSecureField s v) srcs = NewSecureField s v
      \<and> SecureField_Value L (scans L (NewSecureField s v) srcs) rnd = Inl ErrSecretLength
      \<and> SecureField_Scan L (scans L (NewSecureField s v) srcs) src
            = (NewSecureField s v, Some ErrSecretLength)
      \<and> setupCrypto (NewSecureField s v) = NewSecureField s v)
   \<and> (length (Key e) \<noteq> 16 \<and> length (Key e) \<noteq> 24 \<and> length (Key e) \<noteq> 32 \<longrightarrow>
      EncryptColumn_Value L e rnd = Inl (if Valid e then ErrKeyLengthInvalid else ErrInvalid)
      \<and> EncryptColumn_Scan L e src =
            (e, Some (case src of SrcOther d \<Rightarrow> ErrUnsupportedSrc
                      | _ \<Rightarrow> KeySizeError (length (Key e)))))"
proof (intro conjI impI)
  assume bad: "length s \<noteq> 16 \<and> length s \<noteq> 24 \<and> length s \<noteq> 32"
  let ?sf = "NewSecureField s v"
  show err: "initError ?sf = Some ErrSecretLength"
    using bad by (simp add: NewSecureField_bad)
  then show same: "scans L ?sf srcs = ?sf"
    by (rule scans_initError)
  show "SecureField_Value L (scans L ?sf srcs) rnd = Inl ErrSecretLength"
    using err by (simp add: same SecureField_Value_def)
  show "SecureField_Scan L (scans L ?sf srcs) src = (?sf, Some ErrSecretLength)"
    using err by (simp add: same SecureField_Scan_initError)
  show "setupCrypto ?sf = ?sf"
    using bad by (intro setupCrypto_once) (simp add: NewSecureField_bad)
next
  assume bad: "length (Key e) \<noteq> 16 \<and> length (Key e) \<noteq> 24 \<and> length (Key e) \<noteq> 32"
  then show "EncryptColumn_Value L e rnd = Inl (if Valid e then ErrKeyLengthInvalid else ErrInvalid)"
    by (simp add: EncryptColumn_Value_def)
  from bad have "aesDecrypt L e data = Inl (KeySizeError (length (Key e)))" for data
    by (simp add: aesDecrypt_def aes_NewCipher_def)
  then show "EncryptColumn_Scan L e src =
            (e, Some (case src of SrcOther d \<Rightarrow> ErrUnsupportedSrc
                      | _ \<Rightarrow> KeySizeError (length (Key e))))"
    by (cases src) (simp_all add: EncryptColumn_Scan_def Scan_result_def)
qed

theorem key_length_validation_witness:
  "initError (NewSecureField (replicate 15 0) (VString [] :: bool tval)) = Some ErrSecretLength
   \<and> SecureField_Value exampleLib
        (scans exampleLib (NewSecureField (replicate 15 0) (VString [])) [SrcBytes [], SrcOther DNil])
        (Entropy (\<lambda>i. 0)) = Inl ErrSecretLength
   \<and> SecureField_Scan exampleLib
        (scans exampleLib (NewSecureField (replicate 15 0) (VString [])) [SrcBytes [], SrcOther DNil])
        (SrcOther DNil) = (NewSecureField (replicate 15 0) (VString []), Some ErrSecretLength)
   \<and> EncryptColumn_Value exampleLib \<lparr>Val = VString [], Valid = True, Key = replicate 33 0\<rparr>
        (Entropy (\<lambda>i. 0)) = Inl ErrKeyLengthInvalid
   \<and> EncryptColumn_Scan exampleLib \<lparr>Val = VString [], Valid = True, Key = replicate 33 0\<rparr>
        (SrcBytes (replicate 40 0))
        = (\<lparr>Val = VString [], Valid = True, Key = replicate 33 0\<rparr>, Some (KeySizeError 33))"
proof -
  have bad15: "length (replicate 15 (0::byte)) \<noteq> 16 \<and> length (replicate 15 (0::byte)) \<noteq> 24
      \<and> length (replicate 15 (0::byte)) \<noteq> 32"
    by simp
  have bad33: "length (Key \<lparr>Val = VString [] :: bool tval, Valid = True, Key = replicate 33 0\<rparr>) \<noteq> 16
      \<and> length (Key \<lparr>Val = VString [] :: bool tval, Valid = True, Key = replicate 33 0\<rparr>) \<noteq> 24
      \<and> length (Key \<lparr>Val = VString [] :: bool tval, Valid = True, Key = replicate 33 0\<rparr>) \<noteq> 32"
    by simp
  note sf = key_length_validation
     [where s = "replicate 15 0" and v = "VString [] :: bool tval" and L = exampleLib
        and srcs = "[SrcBytes [], SrcOther DNil]" and rnd = "Entropy (\<lambda>i. 0)"
        and src = "SrcOther DNil", THEN conjunct1, rule_format, OF bad15]
  note ec = key_length_validation
     [where L = exampleLib and rnd = "Entropy (\<lambda>i. 0)" and src = "SrcBytes (replicate 40 0)"
        and e = "\<lparr>Val = VString [] :: bool tval, Valid = True, Key = replicate 33 0\<rparr>",
      THEN conjunct2, rule_format, OF bad33]
  from ec have
    "EncryptColumn_Value exampleLib \<lparr>Val = VString [], Valid = True, Key = replicate 33 0\<rparr>
        (Entropy (\<lambda>i. 0)) = Inl ErrKeyLengthInvalid
     \<and> EncryptColumn_Scan exampleLib \<lparr>Val = VString [], Valid = True, Key = replicate 33 0\<rparr>
        (SrcBytes (replicate 40 0))
        = (\<lparr>Val = VString [], Valid = True, Key = replicate 33 0\<rparr>, Some (KeySizeError 33))"
    by simp
  with sf show ?thesis
    by blast
qed

theorem key_length_error_counterexample:
  "length (Key \<lparr>Val = VString [] :: bool tval, Valid = False, Key = replicate 15 0\<rparr>) \<noteq> 16
   \<and> length (Key \<lparr>Val = VString [] :: bool tval, Valid = False, Key = replicate 15 0\<rparr>) \<noteq> 24
   \<and> length (Key \<lparr>Val = VString [] :: bool tval, Valid = False, Key = replicate 15 0\<rparr>) \<noteq> 32
   \<and> EncryptColumn_Value exampleLib \<lparr>Val = VString [], Valid = False, Key = replicate 15 0\<rparr>
        (Entropy (\<lambda>i. 0)) = Inl ErrInvalid
   \<and> EncryptColumn_Scan exampleLib \<lparr>Val = VString [], Valid = False, Key = replicate 15 0\<rparr>
        (SrcOther DNil)
        = (\<lparr>Val = VString [], Valid = False, Key = replicate 15 0\<rparr>, Some ErrUnsupportedSrc)
   \<and> EncryptColumn_Scan exampleLib \<lparr>Val = VString [], Valid = False, Key = replicate 15 0\<rparr>
        (SrcBytes (replicate 40 0))
        = (\<lparr>Val = VString [], Valid = False, Key = replicate 15 0\<rparr>, Some (KeySizeError 15))
   \<and> ErrInvalid \<noteq> ErrKeyLengthInvalid \<and> ErrUnsupportedSrc \<noteq> ErrKeyLengthInvalid
   \<and> KeySizeError 15 \<noteq> ErrKeyLengthInvalid"
  by (simp add: EncryptColumn_Value_def EncryptColumn_Scan_def Scan_result_def aesDecrypt_def
        aes_NewCipher_def)

section \<open>Width of the fixed-width types\<close>

lemma binary_Read_fails_iff:
  "(\<exists>err. (binary_Read n data :: error + 'w::len word) = Inl err) \<longleftrightarrow> length data < n"
  by (auto simp: binary_Read_def)








section \<open>The nonce\<close>







section \<open>Invalid holders\<close>

lemma SecureField_Scan_initError_None:
  "initError sf = None \<Longrightarrow> initError (fst (SecureField_Scan L sf src)) = None"
  by (auto simp: SecureField_Scan_def SecureField_decode_def Let_def
        split: option.splits src.splits sum.splits tval.splits prod.splits)

lemma scans_initError_None:
  "initError sf = None \<Longrightarrow> initError (scans L sf srcs) = None"
  by (induction srcs arbitrary: sf) (simp_all add: SecureField_Scan_initError_None)

lemma NewSecureField_isValid: "isValid (NewSecureField s v)"
  by (auto simp: NewSecureField_def setupCrypto_def Let_def split: sum.splits)

lemma scans_NewSecureField_invariant:
  "initError (scans L (NewSecureField s v) srcs) = None \<or> isValid (scans L (NewSecureField s v) srcs)"
proof (cases "initError (NewSecureField s v)")
  case None
  then show ?thesis
    by (simp add: scans_initError_None)
next
  case (Some err)
  then have "scans L (NewSecureField s v) srcs = NewSecureField s v"
    by (rule scans_initError)
  then show ?thesis
    by (simp add: NewSecureField_isValid)
qed

text \<open>
  C8. \<^verbatim>\<open>Value\<close> on a holder whose validity flag is false returns the invalid-holder
  error and no envelope: for every \<^verbatim>\<open>EncryptColumn\<close>, and for every \<^verbatim>\<open>SecureField\<close>
  that a program can hold (made by \<^verbatim>\<open>NewSecureField\<close> or declared as the zero value,
  then scanned any number of times).
\<close>

theorem invalid_holder_refused:
  "(\<not> Valid e \<longrightarrow> EncryptColumn_Value L e rnd = Inl ErrInvalid)
   \<and> (\<not> isValid (scans L (NewSecureField s v) srcs) \<longrightarrow>
        SecureField_Value L (scans L (NewSecureField s v) srcs) rnd = Inl ErrInvalidField)
   \<and> (\<not> isValid (scans L (zeroSecureField v) srcs) \<longrightarrow>
        SecureField_Value L (scans L (zeroSecureField v) srcs) rnd = Inl ErrInvalidField)"
proof (intro conjI impI)
  assume "\<not> Valid e"
  then show "EncryptColumn_Value L e rnd = Inl ErrInvalid"
    by (simp add: EncryptColumn_Value_def)
next
  assume "\<not> isValid (scans L (NewSecureField s v) srcs)"
  moreover from this have "initError (scans L (NewSecureField s v) srcs) = None"
    using scans_NewSecureField_invariant [of L s v srcs] by blast
  ultimately show "SecureField_Value L (scans L (NewSecureField s v) srcs) rnd = Inl ErrInvalidField"
    by (simp add: SecureField_Value_def)
next
  assume "\<not> isValid (scans L (zeroSecureField v) srcs)"
  moreover have "initError (scans L (zeroSecureField v) srcs) = None"
    by (intro scans_initError_None) (simp add: zeroSecureField_def)
  ultimately show "SecureField_Value L (scans L (zeroSecureField v) srcs) rnd = Inl ErrInvalidField"
    by (simp add: SecureField_Value_def)
qed

theorem invalid_holder_refused_witness:
  "\<not> Valid \<lparr>Val = VString [1] :: bool tval, Valid = False, Key = replicate 16 0\<rparr>
   \<and> EncryptColumn_Value exampleLib \<lparr>Val = VString [1], Valid = False, Key = replicate 16 0\<rparr>
        (Entropy (\<lambda>i. 7)) = Inl ErrInvalid
   \<and> \<not> isValid (scans exampleLib (NewSecureField (replicate 16 0) (VString [1]))
                  [SrcBytes (replicate 12 0)])
   \<and> SecureField_Value exampleLib
        (scans exampleLib (NewSecureField (replicate 16 0) (VString [1])) [SrcBytes (replicate 12 0)])
        (Entropy (\<lambda>i. 7)) = Inl ErrInvalidField
   \<and> \<not> isValid (scans exampleLib (zeroSecureField (VString [])) [])
   \<and> SecureField_Value exampleLib (scans exampleLib (zeroSecureField (VString [])) [])
        (Entropy (\<lambda>i. 7)) = Inl ErrInvalidField"
proof -
  have a: "\<not> Valid \<lparr>Val = VString [1] :: bool tval, Valid = False, Key = replicate 16 0\<rparr>"
    by simp
  have b: "\<not> isValid (scans exampleLib (NewSecureField (replicate 16 0) (VString [1]))
                  [SrcBytes (replicate 12 0)])"
    by code_simp
  have c: "\<not> isValid (scans exampleLib (zeroSecureField (VString [])) [])"
    by (simp add: zeroSecureField_def)
  note t = invalid_holder_refused
    [where L = exampleLib and rnd = "Entropy (\<lambda>i. 7)"
       and e = "\<lparr>Val = VString [1] :: bool tval, Valid = False, Key = replicate 16 0\<rparr>"
       and s = "replicate 16 0" and srcs = "[SrcBytes (replicate 12 0)]"]
  from t [where v = "VString [1]"] a b
  have "EncryptColumn_Value exampleLib \<lparr>Val = VString [1], Valid = False, Key = replicate 16 0\<rparr>
        (Entropy (\<lambda>i. 7)) = Inl ErrInvalid
     \<and> SecureField_Value exampleLib
        (scans exampleLib (NewSecureField (replicate 16 0) (VString [1])) [SrcBytes (replicate 12 0)])
        (Entropy (\<lambda>i. 7)) = Inl ErrInvalidField"
    by blast
  moreover from invalid_holder_refused
    [where L = exampleLib and rnd = "Entropy (\<lambda>i. 7)" and v = "VString []" and srcs = "[]"] c
  have "SecureField_Value exampleLib (scans exampleLib (zeroSecureField (VString [])) [])
        (Entropy (\<lambda>i. 7)) = Inl ErrInvalidField"
    by blast
  ultimately show ?thesis
    using a b c by blast
qed

section \<open>Unsupported source types\<close>

text \<open>
  C9, as the code has it. For a source that is neither a byte slice nor a string,
  \<^verbatim>\<open>Scan\<close> returns the unsupported-type error and leaves the holder as it was: in
  \<^verbatim>\<open>EncryptColumn\<close> whatever the key, in \<^verbatim>\<open>SecureField\<close> when the initialisation has
  not failed. A \<^verbatim>\<open>SecureField\<close> whose initialisation failed returns its cached
  initialisation error first.
\<close>

theorem unsupported_source_type:
  "EncryptColumn_Scan L e (SrcOther d) = (e, Some ErrUnsupportedSrc)
   \<and> (initError sf = None \<longrightarrow> SecureField_Scan L sf (SrcOther d) = (sf, Some ErrUnsupportedType))
   \<and> (initError sf = Some err \<longrightarrow> SecureField_Scan L sf (SrcOther d) = (sf, Some err))"
  by (simp add: EncryptColumn_Scan_def SecureField_Scan_def)

theorem unsupported_source_type_witness:
  "EncryptColumn_Scan exampleLib \<lparr>Val = VString [], Valid = True, Key = replicate 15 0\<rparr>
       (SrcOther (DInt64 5))
     = (\<lparr>Val = VString [], Valid = True, Key = replicate 15 0\<rparr>, Some ErrUnsupportedSrc)
   \<and> SecureField_Scan exampleLib (NewSecureField (replicate 16 0) (VString [])) (SrcOther (DInt64 5))
     = (NewSecureField (replicate 16 0) (VString []), Some ErrUnsupportedType)
   \<and> SecureField_Scan exampleLib (NewSecureField (replicate 15 0) (VString [])) (SrcOther (DInt64 5))
     = (NewSecureField (replicate 15 0) (VString []), Some ErrSecretLength)"
proof -
  have good: "initError (NewSecureField (replicate 16 0) (VString [] :: bool tval)) = None"
    by (simp add: NewSecureField_good)
  have bad: "initError (NewSecureField (replicate 15 0) (VString [] :: bool tval)) = Some ErrSecretLength"
    by (simp add: NewSecureField_bad)
  from unsupported_source_type
    [where L = exampleLib and d = "DInt64 5"
       and e = "\<lparr>Val = VString [], Valid = True, Key = replicate 15 0\<rparr>"
       and sf = "NewSecureField (replicate 16 0) (VString [])"] good
  have "EncryptColumn_Scan exampleLib \<lparr>Val = VString [], Valid = True, Key = replicate 15 0\<rparr>
       (SrcOther (DInt64 5))
     = (\<lparr>Val = VString [], Valid = True, Key = replicate 15 0\<rparr>, Some ErrUnsupportedSrc)
   \<and> SecureField_Scan exampleLib (NewSecureField (replicate 16 0) (VString [])) (SrcOther (DInt64 5))
     = (NewSecureField (replicate 16 0) (VString []), Some ErrUnsupportedType)"
    by blast
  moreover from unsupported_source_type
    [where L = exampleLib and d = "DInt64 5" and err = ErrSecretLength
       and sf = "NewSecureField (replicate 15 0) (VString [])"] bad
  have "SecureField_Scan exampleLib (NewSecureField (replicate 15 0) (VString [])) (SrcOther (DInt64 5))
     = (NewSecureField (replicate 15 0) (VString []), Some ErrSecretLength)"
    by blast
  ultimately show ?thesis
    by blast
qed

theorem unsupported_source_type_counterexample:
  "SecureField_Scan exampleLib (NewSecureField (replicate 15 0) (VString [])) (SrcOther DNil)
     = (NewSecureField (replicate 15 0) (VString []), Some ErrSecretLength)
   \<and> ErrSecretLength \<noteq> ErrUnsupportedType"
  by (simp add: SecureField_Scan_def NewSecureField_bad)

section \<open>A concrete scenario\<close>

text \<open>
  C6. With a secret of 32 zero bytes and the value \<^verbatim>\<open>int64(42)\<close>, for every keystream,
  tag function and draw of the entropy source: the encoding is the 8 bytes
  \<open>00 00 00 00 00 00 00 2A\<close>; \<^verbatim>\<open>Value\<close> returns an envelope of 36 bytes, a nonce of 12
  bytes, then 8 bytes of ciphertext, then a tag of 16 bytes; \<^verbatim>\<open>aesDecrypt\<close> of that
  envelope under the same key returns the 8 bytes; decoding them gives 42, and so does
  \<^verbatim>\<open>Scan\<close> of the envelope.
\<close>

theorem int64_42_scenario:
  "EncryptColumn_encode L (VInt64 42) = Inr [0, 0, 0, 0, 0, 0, 0, 0x2A]
   \<and> (\<exists>nonce ciphertext tag.
         EncryptColumn_Value L \<lparr>Val = VInt64 42, Valid = True, Key = replicate 32 0\<rparr> (Entropy f)
           = Inr (nonce @ ciphertext @ tag)
         \<and> length nonce = 12 \<and> length ciphertext = 8 \<and> length tag = 16
         \<and> length (nonce @ ciphertext @ tag) = 36
         \<and> aesDecrypt L \<lparr>Val = VInt64 0, Valid = False, Key = replicate 32 0\<rparr>
              (nonce @ ciphertext @ tag) = Inr [0, 0, 0, 0, 0, 0, 0, 0x2A]
         \<and> EncryptColumn_Scan L \<lparr>Val = VInt64 0, Valid = False, Key = replicate 32 0\<rparr>
              (SrcBytes (nonce @ ciphertext @ tag))
             = (\<lparr>Val = VInt64 42, Valid = True, Key = replicate 32 0\<rparr>, None))
   \<and> setValAfterDecrypt L \<lparr>Val = VInt64 0, Valid = False, Key = replicate 32 0\<rparr>
         [0, 0, 0, 0, 0, 0, 0, 0x2A]
       = (\<lparr>Val = VInt64 42, Valid = False, Key = replicate 32 0\<rparr>, None)"
proof (intro conjI)
  let ?e = "\<lparr>Val = VInt64 42 :: 'a tval, Valid = True, Key = replicate 32 0\<rparr>"
  let ?e' = "\<lparr>Val = VInt64 0 :: 'a tval, Valid = False, Key = replicate 32 0\<rparr>"
  let ?b = "[0, 0, 0, 0, 0, 0, 0, 0x2A :: byte]"
  have put: "put_be 8 (42 :: 64 word) = ?b"
    by code_simp
  show enc: "EncryptColumn_encode L (VInt64 42) = Inr ?b"
    by (simp add: binary_Write_def put)
  have "get_be ?b = (42 :: 64 word)"
    by (simp add: get_be_def)
  then show dec: "setValAfterDecrypt L ?e' ?b = (\<lparr>Val = VInt64 42, Valid = False, Key = replicate 32 0\<rparr>, None)"
    by (simp add: setValAfterDecrypt_def binary_Read_def)
  let ?nonce = "map f [0..<12]"
  let ?ct = "counterCrypt L (replicate 32 0) ?nonce ?b"
  let ?tag = "put_be 16 (gcm_tag L (replicate 32 0) ?nonce [] ?ct)"
  have seal: "EncryptColumn_Value L ?e (Entropy f) = Inr (?nonce @ ?ct @ ?tag)"
    using aesEncrypt_envelope [of ?e L f ?b] by (simp add: EncryptColumn_Value_def binary_Write_def put)
  have opened: "aesDecrypt L ?e' (?nonce @ ?ct @ ?tag) = Inr ?b"
    using aesDecrypt_envelope [of ?e' ?nonce L ?b] by simp
  have scan: "EncryptColumn_Scan L ?e' (SrcBytes (?nonce @ ?ct @ ?tag))
      = (\<lparr>Val = VInt64 42, Valid = True, Key = replicate 32 0\<rparr>, None)"
    by (simp add: EncryptColumn_Scan_def Scan_result_def opened dec)
  have "length ?nonce = 12 \<and> length ?ct = 8 \<and> length ?tag = 16
      \<and> length (?nonce @ ?ct @ ?tag) = 36"
    by simp
  with seal opened scan
  show "\<exists>nonce ciphertext tag.
         EncryptColumn_Value L ?e (Entropy f) = Inr (nonce @ ciphertext @ tag)
         \<and> length nonce = 12 \<and> length ciphertext = 8 \<and> length tag = 16
         \<and> length (nonce @ ciphertext @ tag) = 36
         \<and> aesDecrypt L ?e' (nonce @ ciphertext @ tag) = Inr ?b
         \<and> EncryptColumn_Scan L ?e' (SrcBytes (nonce @ ciphertext @ tag))
             = (\<lparr>Val = VInt64 42, Valid = True, Key = replicate 32 0\<rparr>, None)"
    by blast
qed

theorem int64_42_scenario_witness:
  "EncryptColumn_encode exampleLib (VInt64 42) = Inr [0, 0, 0, 0, 0, 0, 0, 0x2A]
   \<and> (\<exists>nonce ciphertext tag.
         EncryptColumn_Value exampleLib \<lparr>Val = VInt64 42, Valid = True, Key = replicate 32 0\<rparr>
             (Entropy (\<lambda>i. of_nat i))
           = Inr (nonce @ ciphertext @ tag)
         \<and> length nonce = 12 \<and> length ciphertext = 8 \<and> length tag = 16
         \<and> length (nonce @ ciphertext @ tag) = 36
         \<and> aesDecrypt exampleLib \<lparr>Val = VInt64 0, Valid = False, Key = replicate 32 0\<rparr>
              (nonce @ ciphertext @ tag) = Inr [0, 0, 0, 0, 0, 0, 0, 0x2A]
         \<and> EncryptColumn_Scan exampleLib \<lparr>Val = VInt64 0, Valid = False, Key = replicate 32 0\<rparr>
              (SrcBytes (nonce @ ciphertext @ tag))
             = (\<lparr>Val = VInt64 42, Valid = True, Key = replicate 32 0\<rparr>, None))
   \<and> setValAfterDecrypt exampleLib \<lparr>Val = VInt64 0, Valid = False, Key = replicate 32 0\<rparr>
         [0, 0, 0, 0, 0, 0, 0, 0x2A]
       = (\<lparr>Val = VInt64 42, Valid = False, Key = replicate 32 0\<rparr>, None)"
  by (rule int64_42_scenario)

section \<open>Validity after a failed Scan\<close>

lemma EncryptColumn_Scan_decode_failure:
  assumes "aesDecrypt L e data = Inr b" and "snd (setValAfterDecrypt L e b) = Some err"
  shows "\<not> Valid (fst (EncryptColumn_Scan L e (SrcBytes data)))"
    and "\<not> Valid (fst (EncryptColumn_Scan L e (SrcString data)))"
  using assms
  by (auto simp: EncryptColumn_Scan_def Scan_result_def split: prod.splits)

lemma SecureField_Scan_decrypt_failure:
  assumes "initError sf = None" and "aead sf = Some gcm" and "12 \<le> length data"
    and "Open L gcm [] (take 12 data) (drop 12 data) [] = Inl err"
  shows "SecureField_Scan L sf (SrcBytes data) = (sf\<lparr>isValid := False\<rparr>, Some (ErrDecrypt err))"
proof -
  obtain key where gcm: "gcm = GCM (AES key)"
    by (metis AEAD.exhaust Block.exhaust)
  from assms(3,4) have "\<not> is_panic err"
    by (auto simp: gcm NonceSize_def Let_def split: if_splits)
  with assms show ?thesis
    by (simp add: SecureField_Scan_def NonceSize_def)
qed

text \<open>
  C1 fails on two paths, evaluated here. \<^verbatim>\<open>EncryptColumn.Scan\<close> returns the error of
  \<^verbatim>\<open>aesDecrypt\<close> before the line that sets \<^verbatim>\<open>Valid\<close>: on an envelope that does not
  authenticate (here 12 bytes, too short to hold a tag) a valid holder stays valid.
  \<^verbatim>\<open>SecureField.Scan\<close> returns from the cases \<^verbatim>\<open>*int8\<close> and \<^verbatim>\<open>*int16\<close> on a length
  mismatch without touching \<^verbatim>\<open>isValid\<close>: scanning the sealed two bytes of an
  \<^verbatim>\<open>int16\<close> into an \<^verbatim>\<open>int8\<close> holder leaves it valid. (The two lemmas above are the
  paths that do clear the flag.)
\<close>

theorem failed_Scan_keeps_validity:
  "EncryptColumn_Scan L \<lparr>Val = VString [104, 105], Valid = True, Key = replicate 16 0\<rparr>
       (SrcBytes (replicate 12 0))
     = (\<lparr>Val = VString [104, 105], Valid = True, Key = replicate 16 0\<rparr>, Some ErrOpen)
   \<and> (\<exists>env. SecureField_Value L (NewSecureField (replicate 16 0) (VInt16 5)) (Entropy f) = Inr env
         \<and> SecureField_Scan L (NewSecureField (replicate 16 0) (VInt8 1)) (SrcBytes env)
             = (NewSecureField (replicate 16 0) (VInt8 1), Some ErrInt8Length)
         \<and> isValid (fst (SecureField_Scan L (NewSecureField (replicate 16 0) (VInt8 1))
                           (SrcBytes env))))"
proof (intro conjI)
  show "EncryptColumn_Scan L \<lparr>Val = VString [104, 105], Valid = True, Key = replicate 16 0\<rparr>
       (SrcBytes (replicate 12 0))
     = (\<lparr>Val = VString [104, 105], Valid = True, Key = replicate 16 0\<rparr>, Some ErrOpen)"
    by (simp add: EncryptColumn_Scan_def Scan_result_def aesDecrypt_def aes_NewCipher_def
          cipher_NewGCM_def NonceSize_def tagSize_def)
  let ?sf16 = "NewSecureField (replicate 16 0) (VInt16 5)"
  let ?sf8 = "NewSecureField (replicate 16 0) (VInt8 1)"
  have "\<exists>env. SecureField_Value L ?sf16 (Entropy f) = Inr env
      \<and> SecureField_Scan L ?sf8 (SrcBytes env) = SecureField_decode L ?sf8 (put_be 2 (5 :: 16 word))"
    by (intro SecureField_seal_open [where gcm = "GCM (AES (replicate 16 0))"])
       (simp_all add: NewSecureField_good)
  moreover have "SecureField_decode L ?sf8 (put_be 2 (5 :: 16 word)) = (?sf8, Some ErrInt8Length)"
    by (simp add: SecureField_decode_def NewSecureField_good)
  moreover have "isValid ?sf8"
    by (rule NewSecureField_isValid)
  ultimately show "\<exists>env. SecureField_Value L ?sf16 (Entropy f) = Inr env
         \<and> SecureField_Scan L ?sf8 (SrcBytes env) = (?sf8, Some ErrInt8Length)
         \<and> isValid (fst (SecureField_Scan L ?sf8 (SrcBytes env)))"
    by auto
qed

section \<open>Envelopes shorter than a nonce\<close>

lemma aesDecrypt_short:
  assumes "length (Key e) = 16 \<or> length (Key e) = 24 \<or> length (Key e) = 32"
    and "length data < 12"
  shows "aesDecrypt L e data = Inl (Panic SliceBoundsOutOfRange)"
  using assms by (auto simp: aesDecrypt_def aes_NewCipher_def cipher_NewGCM_def NonceSize_def)

lemma SecureField_Scan_short:
  assumes "initError sf = None" and "aead sf = Some gcm" and "length data < 12"
  shows "SecureField_Scan L sf (SrcBytes data) = (sf, Some ErrDataLength)"
    and "SecureField_Scan L sf (SrcString data) = (sf, Some ErrDataLength)"
  using assms by (simp_all add: SecureField_Scan_def NonceSize_def)

text \<open>
  C4 fails in \<^verbatim>\<open>EncryptColumn\<close>, evaluated here: \<^verbatim>\<open>aesDecrypt\<close> slices the envelope
  without a check of its length, so \<^verbatim>\<open>Scan\<close> of 3 bytes under a key of 16 bytes
  panics, where \<^verbatim>\<open>SecureField.Scan\<close> returns its too-short error.
\<close>

theorem short_envelope_panics:
  "EncryptColumn_Scan L \<lparr>Val = VString [], Valid = True, Key = replicate 16 0\<rparr> (SrcBytes [1, 2, 3])
     = (\<lparr>Val = VString [], Valid = True, Key = replicate 16 0\<rparr>, Some (Panic SliceBoundsOutOfRange))
   \<and> SecureField_Scan L (NewSecureField (replicate 16 0) (VString [])) (SrcBytes [1, 2, 3])
     = (NewSecureField (replicate 16 0) (VString []), Some ErrDataLength)"
proof (intro conjI)
  show "EncryptColumn_Scan L \<lparr>Val = VString [], Valid = True, Key = replicate 16 0\<rparr> (SrcBytes [1, 2, 3])
     = (\<lparr>Val = VString [], Valid = True, Key = replicate 16 0\<rparr>, Some (Panic SliceBoundsOutOfRange))"
    by (simp add: EncryptColumn_Scan_def Scan_result_def aesDecrypt_short)
  show "SecureField_Scan L (NewSecureField (replicate 16 0) (VString [])) (SrcBytes [1, 2, 3])
     = (NewSecureField (replicate 16 0) (VString []), Some ErrDataLength)"
    by (intro SecureField_Scan_short [where gcm = "GCM (AES (replicate 16 0))"])
       (simp_all add: NewSecureField_good)
qed

section \<open>Properties of Add\<close>

lemma length_shiftRight: "length (shiftRight src i index) = length src"
proof (induction src i index rule: shiftRight.induct)
  case (1 src i index)
  show ?case
  proof (cases "i > index")
    case True
    with 1 show ?thesis by (subst shiftRight.simps) simp
  next
    case False
    then show ?thesis by (subst shiftRight.simps) simp
  qed
qed

lemma nth_shiftRight:
  "i < length src \<Longrightarrow> k < length src \<Longrightarrow>
   shiftRight src i index ! k = (if index < k \<and> k \<le> i then src ! (k - 1) else src ! k)"
proof (induction src i index arbitrary: k rule: shiftRight.induct)
  case (1 src i index)
  show ?case
  proof (cases "i > index")
    case True
    have "shiftRight src i index ! k = shiftRight (src[i := src ! (i - 1)]) (i - 1) index ! k"
      using True by (subst shiftRight.simps) simp
    also have "\<dots> = (if index < k \<and> k \<le> i - 1
                     then src[i := src ! (i - 1)] ! (k - 1) else src[i := src ! (i - 1)] ! k)"
      using "1.IH" [OF True, of k] "1.prems" by simp
    also have "\<dots> = (if index < k \<and> k \<le> i then src ! (k - 1) else src ! k)"
      using True "1.prems" by (auto simp: nth_list_update)
    finally show ?thesis .
  next
    case False
    then show ?thesis by (subst shiftRight.simps) auto
  qed
qed

lemma Add_in_range:
  assumes "0 \<le> index" and "index \<le> int (length src)"
  shows "Add zeroValue src element index =
           Inr (take (nat index) src @ element # drop (nat index) src)"
proof -
  define n where "n = nat index"
  have n: "n \<le> length src" and idx: "index = int n"
    using assms by (simp_all add: n_def)
  let ?s = "shiftRight (src @ [zeroValue]) (length src) n"
  have len: "length ?s = Suc (length src)"
    by (simp add: length_shiftRight)
  have "?s[n := element] = take n src @ element # drop n src"
  proof (rule nth_equalityI)
    show "length (?s[n := element]) = length (take n src @ element # drop n src)"
      using n by (simp add: len)
  next
    fix k
    assume "k < length (?s[n := element])"
    then have k: "k < Suc (length src)"
      by (simp add: len)
    have shifted: "?s ! k = (if n < k \<and> k \<le> length src
                             then (src @ [zeroValue]) ! (k - 1) else (src @ [zeroValue]) ! k)"
      using k by (intro nth_shiftRight) simp_all
    show "?s[n := element] ! k = (take n src @ element # drop n src) ! k"
    proof (cases "k < n")
      case True
      then show ?thesis
        using n k shifted by (simp add: len nth_append)
    next
      case False
      show ?thesis
      proof (cases "k = n")
        case True
        then show ?thesis
          using n by (simp add: len nth_append)
      next
        case neq: False
        with False have gt: "n < k" by simp
        then obtain j where j: "k = Suc (n + j)"
          using less_iff_Suc_add by auto
        then show ?thesis
          using n k gt shifted by (simp add: len nth_append min_def)
      qed
    qed
  qed
  then show ?thesis
    using n by (simp add: Add_def idx Let_def)
qed

text \<open>
  C10. For \<open>0 \<le> index \<le> len(src)\<close>, \<^verbatim>\<open>Add\<close> returns, with a nil error, a slice of
  length \<open>len(src) + 1\<close> whose first \<open>index\<close> elements are those of \<open>src\<close>, whose
  element at \<open>index\<close> is the new element and whose remaining elements are
  \<^verbatim>\<open>src[index:]\<close> in order; for \<open>index < 0\<close> or \<open>index > len(src)\<close> it returns no
  slice and the index-out-of-range error.
\<close>

theorem Add_spec:
  "(0 \<le> index \<and> index \<le> int (length src) \<longrightarrow>
      (\<exists>res. Add zeroValue src element index = Inr res
         \<and> length res = length src + 1
         \<and> take (nat index) res = take (nat index) src
         \<and> res ! nat index = element
         \<and> drop (nat index + 1) res = drop (nat index) src))
   \<and> (index < 0 \<or> index > int (length src) \<longrightarrow>
      Add zeroValue src element index = Inl (ErrIndexOutOfRange (length src) index))"
proof (intro conjI impI)
  assume range: "0 \<le> index \<and> index \<le> int (length src)"
  then have n: "nat index \<le> length src" by linarith
  let ?res = "take (nat index) src @ element # drop (nat index) src"
  have "Add zeroValue src element index = Inr ?res"
    using range by (simp add: Add_in_range)
  moreover have "length ?res = length src + 1"
    using n by simp
  moreover have "take (nat index) ?res = take (nat index) src"
    using n by simp
  moreover have "?res ! nat index = element"
    using n by (simp add: nth_append)
  moreover have "drop (nat index + 1) ?res = drop (nat index) src"
    using n by simp
  ultimately show "\<exists>res. Add zeroValue src element index = Inr res
         \<and> length res = length src + 1
         \<and> take (nat index) res = take (nat index) src
         \<and> res ! nat index = element
         \<and> drop (nat index + 1) res = drop (nat index) src"
    by blast
next
  assume "index < 0 \<or> index > int (length src)"
  then show "Add zeroValue src element index = Inl (ErrIndexOutOfRange (length src) index)"
    by (auto simp: Add_def Let_def)
qed

theorem Add_spec_witness:
  "(\<exists>res. Add (0::int) [123, 124, 125] 233 1 = Inr res
       \<and> length res = 4 \<and> take 1 res = [123] \<and> res ! 1 = 233 \<and> drop 2 res = [124, 125])
   \<and> Add (0::int) [123, 100] 0 12 = Inl (ErrIndexOutOfRange 2 12)
   \<and> Add (0::int) [123, 100] 0 (- 1) = Inl (ErrIndexOutOfRange 2 (- 1))"
proof (intro conjI)
  show "\<exists>res. Add (0::int) [123, 124, 125] 233 1 = Inr res
       \<and> length res = 4 \<and> take 1 res = [123] \<and> res ! 1 = 233 \<and> drop 2 res = [124, 125]"
    using Add_spec [of 1 "[123, 124, 125]" "0::int" 233] by (simp add: numeral_eq_Suc)
  show "Add (0::int) [123, 100] 0 12 = Inl (ErrIndexOutOfRange 2 12)"
    using Add_spec [of 12 "[123, 100]" "0::int" 0] by simp
  show "Add (0::int) [123, 100] 0 (- 1) = Inl (ErrIndexOutOfRange 2 (- 1))"
    using Add_spec [of "- 1" "[123, 100]" "0::int" 0] by simp
qed

end
